theory Spec2Isabelle
  imports Complex_Main
begin

section \<open>Errors and Python primitives\<close>

text \<open>
  Every exception the modelled code can raise is a value of \<open>error\<close>; a function that
  may raise returns \<open>error + 'a\<close> with \<open>Inl\<close> for the exception.
\<close>

datatype error = AssertionError | ZeroDivisionError | ValueError | TypeError
  | IndexError | RuntimeError | NameError

text \<open>Python's \<^verbatim>\<open>range(a, b)\<close>: the integers from \<open>a\<close> up to \<open>b - 1\<close>, empty when \<open>b \<le> a\<close>.\<close>

definition py_range :: "int \<Rightarrow> int \<Rightarrow> int list" where
  "py_range a b = [a..b - 1]"

section \<open>Clip indexer: \<^verbatim>\<open>from_frames_to_clips\<close> (utils.py, lines 9-23)\<close>

text \<open>
  \<^verbatim>\<open>
  def from_frames_to_clips(frames, chunk_size, frequency):
      frame_cnt = len(frames)
      assert(frame_cnt > chunk_size)
      clipped_length = frame_cnt - chunk_size
      clipped_length = (clipped_length // frequency) * frequency
      frame_indices = []
      for i in range(clipped_length // frequency + 1):
          frame_indices.append([j for j in range(i * frequency, i * frequency + chunk_size)])
      frame_indices = np.array(frame_indices)
      return frame_indices
  \<close>
  Python's integers are unbounded (\<open>int\<close>), \<^verbatim>\<open>//\<close> is floor division (as \<open>div\<close> on \<open>int\<close>)
  and raises ZeroDivisionError on a zero divisor. The resulting two-dimensional array is
  the list of its rows.
\<close>

definition from_frames_to_clips :: "'a list \<Rightarrow> int \<Rightarrow> int \<Rightarrow> error + int list list" where
  "from_frames_to_clips frames chunk_size frequency =
     (let frame_cnt = int (length frames) in
      if \<not> frame_cnt > chunk_size then Inl AssertionError
      else if frequency = 0 then Inl ZeroDivisionError
      else
        let clipped_length = frame_cnt - chunk_size;
            clipped_length' = (clipped_length div frequency) * frequency
        in Inr (map (\<lambda>i. py_range (i * frequency) (i * frequency + chunk_size))
                  (py_range 0 (clipped_length' div frequency + 1))))"

section \<open>Batch partitioner: \<^verbatim>\<open>split_clip_indices_into_batches\<close> (utils.py, lines 26-30)\<close>

text \<open>
  NumPy's \<^verbatim>\<open>array_split(ary, Nsections, axis=0)\<close> for an integer section count:
  \<^verbatim>\<open>
  if Nsections <= 0: raise ValueError('number sections must be larger than 0.')
  Neach_section, extras = divmod(Ntotal, Nsections)
  section_sizes = [0] + extras * [Neach_section+1] + (Nsections-extras) * [Neach_section]
  div_points = array(section_sizes).cumsum()
  sub_arys = [ary[div_points[i]:div_points[i + 1]] for i in range(Nsections)]
  \<close>
  \<open>chop\<close> cuts a list into consecutive pieces of the given sizes, which is what slicing
  between consecutive cumulative sums does.
\<close>

fun chop :: "nat list \<Rightarrow> 'a list \<Rightarrow> 'a list list" where
  "chop [] xs = []"
| "chop (n # ns) xs = take n xs # chop ns (drop n xs)"

definition section_sizes :: "nat \<Rightarrow> nat \<Rightarrow> nat list" where
  "section_sizes Ntotal Nsections =
     (let Neach_section = Ntotal div Nsections; extras = Ntotal mod Nsections
      in replicate extras (Neach_section + 1) @ replicate (Nsections - extras) Neach_section)"

definition np_array_split :: "'a list \<Rightarrow> int \<Rightarrow> error + 'a list list" where
  "np_array_split ary Nsections =
     (if Nsections \<le> 0 then Inl ValueError
      else Inr (chop (section_sizes (length ary) (nat Nsections)) ary))"

text \<open>
  \<^verbatim>\<open>np.asarray\<close> of a list of arrays stacks them along a new first axis. The groups here
  are two-dimensional arrays with rows of one common length, so they have the same shape
  exactly when they have the same number of rows. For groups of different shapes NumPy
  (from 1.24 on) raises ValueError: the requested array has an inhomogeneous shape.
  (Older releases built a one-dimensional array of objects instead, which has no second
  axis for the callers in main.py to read.)
\<close>

definition np_asarray :: "'a list list \<Rightarrow> error + 'a list list" where
  "np_asarray groups =
     (if list_all (\<lambda>g. length g = length (hd groups)) groups then Inr groups
      else Inl ValueError)"

text \<open>
  \<^verbatim>\<open>
  def split_clip_indices_into_batches(frame_indices, batch_size):
      chunk_num = frame_indices.shape[0]
      batch_num = int(np.ceil(chunk_num / batch_size))
      frame_indices = np.array_split(frame_indices, batch_num, axis=0)
      return np.asarray(frame_indices)
  \<close>
  \<^verbatim>\<open>/\<close> is Python's true division of two integers: ZeroDivisionError on a zero
  divisor, otherwise the exact quotient rounded to the nearest float64, of which
  \<^verbatim>\<open>np.ceil\<close> and \<^verbatim>\<open>int\<close> then take the ceiling. A positive quotient of at most
  \<open>2 ^ - 1075\<close> (half the least positive float64) rounds to 0.0, so the section count is 0
  there. Any other quotient \<open>n / c\<close> of a window count \<open>n < 2 ^ 53\<close> keeps its ceiling when
  rounded: an integer quotient is a float64, and a quotient that is no integer lies at
  least \<open>1 / c\<close> from the nearest integer, more than the rounding moves it (at most
  \<open>(n / c) * 2 ^ - 53\<close>); a non-positive quotient stays non-positive. Arrays of \<open>2 ^ 53\<close> or
  more windows are beyond any memory and are not modelled apart. The function returns
  the stacked array alone: there is no second component.
\<close>

definition split_clip_indices_into_batches :: "'a list \<Rightarrow> int \<Rightarrow> error + 'a list list" where
  "split_clip_indices_into_batches frame_indices batch_size =
     (let chunk_num = int (length frame_indices) in
      if batch_size = 0 then Inl ZeroDivisionError
      else
        let batch_num =
              (if 0 < batch_size \<and> chunk_num * 2 ^ 1075 \<le> batch_size then 0
               else \<lceil>real_of_int chunk_num / real_of_int batch_size\<rceil>) in
        case np_array_split frame_indices batch_num of
          Inl e \<Rightarrow> Inl e
        | Inr groups \<Rightarrow> np_asarray groups)"

text \<open>
  Tuple unpacking \<^verbatim>\<open>a, b = xs\<close> iterates over the first axis of \<open>xs\<close> and needs exactly
  two items; any other number raises ValueError (too many, or not enough, values to
  unpack).
\<close>

fun py_unpack2 :: "'a list \<Rightarrow> error + 'a \<times> 'a" where
  "py_unpack2 [a, b] = Inr (a, b)"
| "py_unpack2 _ = Inl ValueError"

section \<open>L2 normalisation (main.py, lines 46-47 and 102-103)\<close>

text \<open>
  \<^verbatim>\<open>
  v = features
  v = v / torch.linalg.norm(v)
  \<close>
  \<open>features\<close> is what the extractor returns for one crop of a whole batch: one row per
  clip of the batch. \<^verbatim>\<open>torch.linalg.norm\<close> is called with neither \<^verbatim>\<open>ord\<close> nor \<^verbatim>\<open>dim\<close>: it
  flattens its argument and returns the 2-norm of all entries, one scalar for the whole
  batch, and the division divides every entry by that scalar. Tensor entries are
  modelled as real numbers (rounding is left out). Where the norm is 0 torch yields nan
  or inf entries, which the reals do not have (HOL's division gives 0); no statement
  below is about that case.
\<close>

definition linalg_norm :: "real list \<Rightarrow> real" where
  "linalg_norm xs = sqrt (sum_list (map (\<lambda>x. x\<^sup>2) xs))"

text \<open>C3D features have shape (clips, 4096).\<close>

definition normalize_c3d :: "real list list \<Rightarrow> real list list" where
  "normalize_c3d v = (let n = linalg_norm (concat v) in map (map (\<lambda>x. x / n)) v)"

text \<open>I3D features have shape (clips, 1024, 1, 1, 1).\<close>

definition normalize_i3d ::
  "real list list list list list \<Rightarrow> real list list list list list" where
  "normalize_i3d v =
     (let n = linalg_norm (concat (concat (concat (concat v))))
      in map (map (map (map (map (\<lambda>x. x / n))))) v)"

section \<open>Filling the accumulator (main.py, lines 30-48 and 86-104)\<close>

text \<open>
  The accumulator \<^verbatim>\<open>full_features\<close> has the axes (batch, crop, clip, ...): a list of
  batches, each a list of crops, each a list of rows, one per clip. A row is the
  embedding of one clip: 4096 numbers for C3D, an array of shape (1024, 1, 1, 1) for I3D.
  It is allocated with zeros and 10 crops.
\<close>

definition zeros :: "nat \<Rightarrow> nat \<Rightarrow> 'r \<Rightarrow> 'r list list list" where
  "zeros n_batches n_clips_inside_a_batch zero_row =
     replicate n_batches (replicate 10 (replicate n_clips_inside_a_batch zero_row))"

text \<open>
  \<^verbatim>\<open>full_features[batch_id, i, ...] = v\<close>: the crop index must be below 10 (IndexError).
  torch broadcasts \<open>v\<close> to the shape of the slot: a \<open>v\<close> with as many rows as the slot is
  written as it is, a \<open>v\<close> with a single row is written into every row of the slot, and
  any other number of rows raises RuntimeError. A row of \<open>v\<close> is taken to have the shape
  of a row of the slot (the embedding size of the extractor).
\<close>

definition store :: "'r list list list \<Rightarrow> nat \<Rightarrow> nat \<Rightarrow> 'r list \<Rightarrow> error + 'r list list list" where
  "store full_features batch_id i v =
     (if length (full_features ! batch_id) \<le> i then Inl IndexError
      else if length v = length (full_features ! batch_id ! i)
        then Inr (full_features[batch_id := (full_features ! batch_id)[i := v]])
      else if length v = 1
        then Inr (full_features[batch_id := (full_features ! batch_id)
                    [i := replicate (length (full_features ! batch_id ! i)) (hd v)]])
      else Inl RuntimeError)"

text \<open>
  \<^verbatim>\<open>b_data = b_data.transpose(1, 2)\<close> (lines 40 and 96): \<open>b_data\<close> is a slice with five
  axes of the \<^verbatim>\<open>np.ndarray\<close> that \<^verbatim>\<open>load_rgb_batch\<close> returns. \<^verbatim>\<open>ndarray.transpose\<close> takes a
  permutation of all the axes; given two axes for an array of five it raises ValueError
  (axes don't match array). (It is \<^verbatim>\<open>torch.Tensor.transpose\<close> that swaps two axes.)
\<close>

definition ndarray_transpose_1_2 :: "'img \<Rightarrow> error + 'img" where
  "ndarray_transpose_1_2 b_data = Inl ValueError"

text \<open>
  The loop over the crops of one batch (lines 37-48): \<open>batch_data\<close> is the list of the
  per-crop slices \<^verbatim>\<open>batch_data[:, :, i]\<close>; the extractor \<open>model\<close> may raise.
\<close>

fun crop_loop :: "('img \<Rightarrow> error + 'r list) \<Rightarrow> ('r list \<Rightarrow> 'r list) \<Rightarrow> nat \<Rightarrow> 'img list \<Rightarrow> nat
    \<Rightarrow> 'r list list list \<Rightarrow> error + 'r list list list" where
  "crop_loop model l2norm batch_id [] i full_features = Inr full_features"
| "crop_loop model l2norm batch_id (b_data # rest) i full_features =
     (case ndarray_transpose_1_2 b_data of
        Inl e \<Rightarrow> Inl e
      | Inr b_data' \<Rightarrow>
     (case model b_data' of
        Inl e \<Rightarrow> Inl e
      | Inr features \<Rightarrow>
          (case store full_features batch_id i (l2norm features) of
             Inl e \<Rightarrow> Inl e
           | Inr full_features' \<Rightarrow>
               crop_loop model l2norm batch_id rest (Suc i) full_features')))"

text \<open>
  The loop over the batches (lines 31-48). \<open>load\<close> is the call of \<^verbatim>\<open>load_rgb_batch\<close> for
  one batch entry. The variable \<^verbatim>\<open>n_crops\<close> is bound inside the loop: it is carried along
  as an option, \<open>None\<close> while unbound.
\<close>

fun batch_loop :: "('b \<Rightarrow> error + 'img list) \<Rightarrow> ('img \<Rightarrow> error + 'r list) \<Rightarrow> ('r list \<Rightarrow> 'r list)
    \<Rightarrow> 'b list \<Rightarrow> nat \<Rightarrow> 'r list list list \<times> nat option
    \<Rightarrow> error + 'r list list list \<times> nat option" where
  "batch_loop load model l2norm [] batch_id st = Inr st"
| "batch_loop load model l2norm (idx # rest) batch_id (full_features, n_crops) =
     (case load idx of
        Inl e \<Rightarrow> Inl e
      | Inr batch_data \<Rightarrow>
          (case crop_loop model l2norm batch_id batch_data 0 full_features of
             Inl e \<Rightarrow> Inl e
           | Inr full_features' \<Rightarrow>
               batch_loop load model l2norm rest (Suc batch_id)
                 (full_features', Some (length batch_data))))"

section \<open>Reassembly (main.py, lines 53-66 and 109-121)\<close>

text \<open>Python's slice \<^verbatim>\<open>xs[:k]\<close>; a negative \<open>k\<close> counts from the end.\<close>

definition py_take :: "int \<Rightarrow> 'a list \<Rightarrow> 'a list" where
  "py_take k xs = (if 0 \<le> k then take (nat k) xs else take (length xs - nat (- k)) xs)"

text \<open>
  \<^verbatim>\<open>
  out = [[] for i in range(n_crops)]
  for batch_id in range(n_batches):
      for i in range(n_crops):
          if batch_id == n_batches - 1:
              out[i].append(full_features[batch_id, i, :k, :])   # ignore padded values
          else:
              out[i].append(full_features[batch_id, i, :, :])
  out = [np.concatenate(i, axis=0) for i in out]
  out = [np.expand_dims(i, axis=0) for i in out]
  out = np.concatenate(out, axis=0)
  \<close>
  \<open>crop_rows\<close> is \<^verbatim>\<open>np.concatenate(out[i], axis=0)\<close>, the rows of crop \<open>i\<close> over all batches.
  \<^verbatim>\<open>np.concatenate\<close> of an empty list raises ValueError (no batch, or no crop); a crop
  index beyond the accumulator's crop axis raises IndexError.
\<close>

definition crop_rows :: "'r list list list \<Rightarrow> int \<Rightarrow> nat \<Rightarrow> 'r list" where
  "crop_rows full_features k i =
     concat (map (\<lambda>batch_id.
        if batch_id = length full_features - 1
        then py_take k (full_features ! batch_id ! i)
        else full_features ! batch_id ! i) [0..<length full_features])"

definition gather :: "'r list list list \<Rightarrow> int \<Rightarrow> nat \<Rightarrow> error + 'r list list" where
  "gather full_features k n_crops =
     (if full_features = [] then Inl ValueError
      else if length (hd full_features) < n_crops then Inl IndexError
      else if n_crops = 0 then Inl ValueError
      else Inr (map (crop_rows full_features k) [0..<n_crops]))"

text \<open>
  \<^verbatim>\<open>out.transpose([1, 0, 2])\<close> swaps the first two axes of a (crop, clip, dim) array.
\<close>

definition transpose_102 :: "'a list list \<Rightarrow> 'a list list" where
  "transpose_102 out = map (\<lambda>r. map (\<lambda>crop. crop ! r) out) [0..<length (hd out)]"

text \<open>C3D (lines 109-122): gather, then \<^verbatim>\<open>np.array(out).transpose([1, 0, 2])\<close>.\<close>

definition reassemble_c3d :: "real list list list list \<Rightarrow> int \<Rightarrow> nat \<Rightarrow> error + real list list list" where
  "reassemble_c3d full_features k n_crops =
     (case gather full_features k n_crops of
        Inl e \<Rightarrow> Inl e
      | Inr out \<Rightarrow> Inr (transpose_102 out))"

text \<open>
  \<^verbatim>\<open>out[:, :, :, 0, 0, 0]\<close> (line 65) takes the entry at index 0 of each of the three
  trailing axes, for every crop, row and embedding coordinate; a trailing axis of size 0
  raises IndexError. \<open>squeeze_cell\<close> does so for the cell of one coordinate and
  \<open>traverse\<close> maps a function that may raise over an axis, stopping at the first error.
\<close>

fun squeeze_cell :: "'a list list list \<Rightarrow> error + 'a" where
  "squeeze_cell (((x # xs) # ys) # zs) = Inr x"
| "squeeze_cell c = Inl IndexError"

fun traverse :: "('a \<Rightarrow> error + 'b) \<Rightarrow> 'a list \<Rightarrow> error + 'b list" where
  "traverse f [] = Inr []"
| "traverse f (x # xs) =
     (case f x of
        Inl e \<Rightarrow> Inl e
      | Inr y \<Rightarrow> (case traverse f xs of Inl e \<Rightarrow> Inl e | Inr ys \<Rightarrow> Inr (y # ys)))"

text \<open>
  I3D (lines 53-68): gather, then \<^verbatim>\<open>out[:, :, :, 0, 0, 0]\<close>, then the same
  \<^verbatim>\<open>np.array(out).transpose([1, 0, 2])\<close>.
\<close>

definition reassemble_i3d ::
  "real list list list list list list list \<Rightarrow> int \<Rightarrow> nat \<Rightarrow> error + real list list list" where
  "reassemble_i3d full_features k n_crops =
     (case gather full_features k n_crops of
        Inl e \<Rightarrow> Inl e
      | Inr out \<Rightarrow>
          (case traverse (traverse (traverse squeeze_cell)) out of
             Inl e \<Rightarrow> Inl e
           | Inr out' \<Rightarrow> Inr (transpose_102 out')))"

section \<open>The entry points (main.py, lines 15-68 and 71-122)\<close>

text \<open>
  Python binds the arguments of a call to the parameters before the body runs; a function
  whose parameters have no defaults raises TypeError when called with another number of
  positional arguments. The values passed at the call sites of main.py are:
\<close>

datatype pyval =
    PStr string
  | PStrs "string list"
  | PInt int
  | PDevice
  | PArr1 "int list"
  | PArr2 "int list list"

text \<open>
  \<^verbatim>\<open>def from_frames_to_clips(frames, chunk_size, frequency)\<close>: three parameters, no
  default.
\<close>

fun call_from_frames_to_clips :: "pyval list \<Rightarrow> error + int list list" where
  "call_from_frames_to_clips [PStrs frames, PInt chunk_size, PInt frequency] =
     from_frames_to_clips frames chunk_size frequency"
| "call_from_frames_to_clips args = Inl TypeError"

text \<open>
  \<^verbatim>\<open>def load_rgb_batch(frames_dir, rgb_files, frame_indices)\<close>: three parameters, no
  default. Its body (utils.py, lines 41-68) reads and transforms image files; it is the
  parameter \<open>loader\<close>, which returns the per-crop inputs of the batch or raises. The body
  reads \<^verbatim>\<open>frame_indices.shape[1]\<close>, which a one-dimensional array does not have.
\<close>

fun call_load_rgb_batch ::
  "(string \<Rightarrow> string list \<Rightarrow> int list list \<Rightarrow> error + 'img list) \<Rightarrow> pyval list
    \<Rightarrow> error + 'img list" where
  "call_load_rgb_batch loader [PStr frames_dir, PStrs rgb_files, PArr2 frame_indices] =
     loader frames_dir rgb_files frame_indices"
| "call_load_rgb_batch loader [PStr frames_dir, PStrs rgb_files, PArr1 frame_indices] =
     (if frame_indices = [] then loader frames_dir rgb_files [] else Inl IndexError)"
| "call_load_rgb_batch loader args = Inl TypeError"

text \<open>A slice bound must be an integer; an array of windows is not one.\<close>

fun as_index :: "pyval \<Rightarrow> error + int" where
  "as_index (PInt k) = Inr k"
| "as_index v = Inl TypeError"

text \<open>
  \<^verbatim>\<open>
  def extract_c3d_features(model, device, clip_length, temp_path, batch_size):
      rgb_files = natsorted([i for i in os.listdir(temp_path)])
      frame_indices = from_frames_to_clips(rgb_files, clip_length)
      frame_indices, k = split_clip_indices_into_batches(frame_indices, batch_size)
      n_batches = frame_indices.shape[0]
      n_clips_inside_a_batch = frame_indices.shape[1]
      full_features = torch.zeros((n_batches, 10, n_clips_inside_a_batch, 4096), device=device)
      for batch_id in range(n_batches):
          batch_data = load_rgb_batch(temp_path, rgb_files, frame_indices[batch_id], device)
          n_crops = batch_data.shape[2]
          for i in range(n_crops):
              ...
      (reassembly)
  \<close>
  \<open>rgb_files\<close> is the sorted listing of the frame store. Both entry points have this text;
  they differ in the shape of a row, and so in the zero row, in the normalisation and in
  the reassembly that they use. After the unpacking in line 24 (80), \<open>frame_indices\<close> is
  what the unpacking bound to it: the first item of the array that the partitioner
  returned, and \<open>k\<close> is the second item.
\<close>

definition extract_features ::
  "'r \<Rightarrow> ('r list \<Rightarrow> 'r list) \<Rightarrow> ('r list list list \<Rightarrow> int \<Rightarrow> nat \<Rightarrow> error + real list list list)
    \<Rightarrow> ('img \<Rightarrow> error + 'r list)
    \<Rightarrow> (string \<Rightarrow> string list \<Rightarrow> int list list \<Rightarrow> error + 'img list)
    \<Rightarrow> string list \<Rightarrow> int \<Rightarrow> string \<Rightarrow> int \<Rightarrow> error + real list list list" where
  "extract_features zero_row l2norm reassemble model loader rgb_files clip_length temp_path
      batch_size =
     (case call_from_frames_to_clips [PStrs rgb_files, PInt clip_length] of
        Inl e \<Rightarrow> Inl e
      | Inr frame_indices \<Rightarrow>
     (case split_clip_indices_into_batches frame_indices batch_size of
        Inl e \<Rightarrow> Inl e
      | Inr batches \<Rightarrow>
     (case py_unpack2 batches of
        Inl e \<Rightarrow> Inl e
      | Inr (frame_indices, k) \<Rightarrow>
     (let n_batches = length frame_indices;
          n_clips_inside_a_batch = length (hd frame_indices);
          full_features = zeros n_batches n_clips_inside_a_batch zero_row
      in
      case batch_loop
             (\<lambda>idx. call_load_rgb_batch loader
                      [PStr temp_path, PStrs rgb_files, PArr1 idx, PDevice])
             model l2norm frame_indices 0 (full_features, None) of
        Inl e \<Rightarrow> Inl e
      | Inr (full_features, None) \<Rightarrow> Inl NameError
      | Inr (full_features, Some n_crops) \<Rightarrow>
          (case as_index (PArr2 k) of
             Inl e \<Rightarrow> Inl e
           | Inr k \<Rightarrow> reassemble full_features k n_crops)))))"

definition extract_i3d_features ::
  "('img \<Rightarrow> error + real list list list list list)
    \<Rightarrow> (string \<Rightarrow> string list \<Rightarrow> int list list \<Rightarrow> error + 'img list)
    \<Rightarrow> string list \<Rightarrow> int \<Rightarrow> string \<Rightarrow> int \<Rightarrow> error + real list list list" where
  "extract_i3d_features =
     extract_features (replicate 1024 [[[0]]]) normalize_i3d reassemble_i3d"

definition extract_c3d_features ::
  "('img \<Rightarrow> error + real list list)
    \<Rightarrow> (string \<Rightarrow> string list \<Rightarrow> int list list \<Rightarrow> error + 'img list)
    \<Rightarrow> string list \<Rightarrow> int \<Rightarrow> string \<Rightarrow> int \<Rightarrow> error + real list list list" where
  "extract_c3d_features =
     extract_features (replicate 4096 0) normalize_c3d reassemble_c3d"

text \<open>
  The accumulator is a rectangular array: \<open>has_shape full_features n_batches n_crops m\<close>
  says that it has \<open>n_batches\<close> batches of \<open>n_crops\<close> crops of \<open>m\<close> rows each, as
  \<^verbatim>\<open>torch.zeros((n_batches, 10, n_clips_inside_a_batch, ...))\<close> allocates it.
\<close>

definition has_shape :: "'r list list list \<Rightarrow> nat \<Rightarrow> nat \<Rightarrow> nat \<Rightarrow> bool" where
  "has_shape full_features n_batches n_crops m \<longleftrightarrow>
     length full_features = n_batches
     \<and> list_all (\<lambda>b. length b = n_crops \<and> list_all (\<lambda>c. length c = m) b) full_features"

section \<open>Properties of the clip indexer\<close>

lemma length_py_range: "length (py_range a b) = nat (b - a)"
  by (simp add: py_range_def)

lemma nth_py_range: "k < nat (b - a) \<Longrightarrow> py_range a b ! k = a + int k"
  by (simp add: py_range_def)

text \<open>
  Claim C7. The clip indexer fails with the assertion error (the spec's
  InsufficientFramesError) exactly when the frame count is at most the clip length,
  whatever the frequency; a frame count equal to the clip length is rejected, and every
  strictly greater frame count is accepted (a list of windows is returned) for every
  non-zero frequency.
\<close>

theorem from_frames_to_clips_fails_iff:
  "(from_frames_to_clips frames chunk_size frequency = Inl AssertionError
      \<longleftrightarrow> int (length frames) \<le> chunk_size)
   \<and> (chunk_size < int (length frames) \<and> frequency \<noteq> 0
        \<longrightarrow> (\<exists>ws. from_frames_to_clips frames chunk_size frequency = Inr ws))"
  by (auto simp: from_frames_to_clips_def Let_def)

theorem from_frames_to_clips_fails_iff_witness:
  "from_frames_to_clips (replicate 16 ()) 16 1 = Inl AssertionError
   \<and> from_frames_to_clips (replicate 15 ()) 16 1 = Inl AssertionError
   \<and> (\<exists>ws. from_frames_to_clips (replicate 17 ()) 16 1 = Inr ws)"
  using from_frames_to_clips_fails_iff [of "replicate 16 ()" 16 1]
    from_frames_to_clips_fails_iff [of "replicate 15 ()" 16 1]
    from_frames_to_clips_fails_iff [of "replicate 17 ()" 16 1]
  by simp

lemma window_start_bound:
  fixes n c f :: int
  assumes f: "1 \<le> f" and cn: "c < n" and i: "int i < (n - c) div f + 1"
  shows "int i * f + c \<le> n"
proof -
  have "int i \<le> (n - c) div f" using i by simp
  then have "int i * f \<le> ((n - c) div f) * f"
    using f by (simp add: mult_right_mono)
  also have "\<dots> \<le> n - c"
  proof -
    have "n - c = ((n - c) div f) * f + (n - c) mod f" by simp
    moreover have "0 \<le> (n - c) mod f" using f by simp
    ultimately show ?thesis by linarith
  qed
  finally show ?thesis by simp
qed

text \<open>
  Claim C4. For a frame count above the clip length (a length, so non-negative) and a
  frequency of at least 1, the clip indexer returns
  \<open>(((frame_count - clip_length) div frequency) * frequency) div frequency + 1\<close> windows;
  window \<open>i\<close> is the range from \<open>i * frequency\<close> to \<open>i * frequency + clip_length\<close>
  (exclusive), so it has exactly \<open>clip_length\<close> consecutive indices, its start is a
  non-negative multiple of the frequency, and its end (that of the last window too) is at
  most the frame count.
\<close>

theorem from_frames_to_clips_windows:
  assumes "chunk_size < int (length frames)" and "1 \<le> frequency" and "0 \<le> chunk_size"
  shows "\<exists>ws. from_frames_to_clips frames chunk_size frequency = Inr ws
    \<and> int (length ws)
        = (((int (length frames) - chunk_size) div frequency) * frequency) div frequency + 1
    \<and> ws \<noteq> []
    \<and> (\<forall>i<length ws.
          ws ! i = py_range (int i * frequency) (int i * frequency + chunk_size)
        \<and> int (length (ws ! i)) = chunk_size
        \<and> (\<forall>j<length (ws ! i). ws ! i ! j = int i * frequency + int j)
        \<and> 0 \<le> int i * frequency
        \<and> frequency dvd int i * frequency
        \<and> int i * frequency + chunk_size \<le> int (length frames))
    \<and> (chunk_size \<noteq> 0 \<longrightarrow> last (last ws) + 1 \<le> int (length frames))"
proof -
  define n where "n = int (length frames)"
  define q where "q = (n - chunk_size) div frequency"
  define ws where "ws = map (\<lambda>i. py_range (i * frequency) (i * frequency + chunk_size))
                          (py_range 0 (q + 1))"
  have f0: "frequency \<noteq> 0" using assms by simp
  have q0: "0 \<le> q"
    unfolding q_def using assms by (simp add: n_def pos_imp_zdiv_nonneg_iff)
  have res: "from_frames_to_clips frames chunk_size frequency = Inr ws"
    using assms f0 by (simp add: from_frames_to_clips_def Let_def ws_def q_def n_def)
  have len: "length ws = nat (q + 1)"
    by (simp add: ws_def length_py_range)
  have cnt: "int (length ws) = (q * frequency) div frequency + 1"
    using q0 f0 by (simp add: len)
  have ne: "ws \<noteq> []" using len q0 by auto
  have win: "ws ! i = py_range (int i * frequency) (int i * frequency + chunk_size)"
    if "i < length ws" for i
    using that by (simp add: ws_def length_py_range nth_py_range)
  have wlen: "int (length (ws ! i)) = chunk_size" if "i < length ws" for i
    using that assms by (simp add: win length_py_range)
  have wnth: "ws ! i ! j = int i * frequency + int j"
    if "i < length ws" and "j < length (ws ! i)" for i j
    using that by (simp add: win length_py_range nth_py_range)
  have wend: "int i * frequency + chunk_size \<le> n" if "i < length ws" for i
  proof (rule window_start_bound)
    show "1 \<le> frequency" by (rule assms(2))
    show "chunk_size < n" using assms(1) by (simp add: n_def)
    show "int i < (n - chunk_size) div frequency + 1"
      using that q0 by (simp add: len q_def)
  qed
  have lst: "last (last ws) + 1 \<le> n" if c: "chunk_size \<noteq> 0"
  proof -
    let ?k = "length ws - 1"
    have k: "?k < length ws" using ne by simp
    have lw: "last ws = ws ! ?k" using ne by (simp add: last_conv_nth)
    have wne: "ws ! ?k \<noteq> []" using wlen [OF k] c by auto
    have cl: "length (ws ! ?k) = nat chunk_size" using wlen [OF k] by simp
    have "last (ws ! ?k) = ws ! ?k ! (length (ws ! ?k) - 1)"
      using wne by (simp add: last_conv_nth)
    also have "\<dots> = int ?k * frequency + int (length (ws ! ?k) - 1)"
      using wne by (intro wnth [OF k]) simp
    also have "\<dots> = int ?k * frequency + chunk_size - 1"
      unfolding cl using c assms(3) by simp
    finally show ?thesis using wend [OF k] by (simp add: lw)
  qed
  show ?thesis
    using res cnt ne win wlen wnth wend lst assms(2)
    by (intro exI [of _ ws]) (simp add: q_def n_def)
qed

theorem from_frames_to_clips_windows_witness:
  "(16::int) < int (length (replicate 20 ())) \<and> (1::int) \<le> 1 \<and> (0::int) \<le> 16
   \<and> (\<exists>ws. from_frames_to_clips (replicate 20 ()) 16 1 = Inr ws \<and> int (length ws) = 5
        \<and> (\<forall>i<length ws. int (length (ws ! i)) = 16
              \<and> int i + 16 \<le> 20))"
  using from_frames_to_clips_windows [of 16 "replicate 20 ()" 1]
  by fastforce

section \<open>Properties of the batch partitioner\<close>

lemma length_chop: "length (chop ns xs) = length ns"
  by (induction ns arbitrary: xs) auto

lemma concat_chop: "concat (chop ns xs) = take (sum_list ns) xs"
  by (induction ns arbitrary: xs) (auto simp: take_add)

lemma map_length_chop: "sum_list ns \<le> length xs \<Longrightarrow> map length (chop ns xs) = ns"
  by (induction ns arbitrary: xs) auto

lemma length_section_sizes: "0 < k \<Longrightarrow> length (section_sizes n k) = k"
  by (simp add: section_sizes_def Let_def less_imp_le)

lemma sum_list_section_sizes: "0 < k \<Longrightarrow> sum_list (section_sizes n k) = n"
  by (simp add: section_sizes_def Let_def sum_list_replicate algebra_simps less_imp_le)

lemma set_section_sizes: "set (section_sizes n k) \<subseteq> {n div k, n div k + 1}"
  by (auto simp: section_sizes_def Let_def)

lemma sorted_section_sizes: "sorted (rev (section_sizes n k))"
  by (auto simp: section_sizes_def Let_def sorted_append)

lemma section_sizes_uniform:
  "0 < k \<Longrightarrow> n mod k = 0 \<Longrightarrow> section_sizes n k = replicate k (n div k)"
  by (simp add: section_sizes_def)

lemma section_sizes_ragged:
  assumes "0 < k" and "n mod k \<noteq> 0"
  shows "hd (section_sizes n k) = n div k + 1" and "n div k \<in> set (section_sizes n k)"
proof -
  have e: "0 < n mod k" "n mod k < k" using assms by simp_all
  show "hd (section_sizes n k) = n div k + 1"
    using e by (cases "n mod k") (simp_all add: section_sizes_def Let_def)
  show "n div k \<in> set (section_sizes n k)"
    using e by (simp add: section_sizes_def Let_def)
qed

lemma batch_num_bounds:
  fixes n c :: int
  assumes "1 \<le> n" and "1 \<le> c"
  shows "1 \<le> \<lceil>real_of_int n / real_of_int c\<rceil>" and "\<lceil>real_of_int n / real_of_int c\<rceil> \<le> n"
proof -
  have "0 < real_of_int n / real_of_int c" using assms by simp
  then show "1 \<le> \<lceil>real_of_int n / real_of_int c\<rceil>" by (simp add: ceiling_le_iff less_ceiling_iff)
  have "real_of_int n / real_of_int c \<le> real_of_int n"
    using assms by (simp add: divide_le_eq mult_le_cancel_left1) 
  then show "\<lceil>real_of_int n / real_of_int c\<rceil> \<le> n" by (simp add: ceiling_le_iff)
qed


lemma np_asarray_iff:
  assumes "groups \<noteq> []"
  shows "np_asarray groups =
    (if \<forall>n \<in> set (map length groups). n = hd (map length groups) then Inr groups
     else Inl ValueError)"
  using assms by (simp add: np_asarray_def list_all_iff hd_map)

lemma array_split_even:
  assumes "0 < b"
  shows "np_array_split ws (int b) = Inr (chop (section_sizes (length ws) b) ws)"
    and "length (chop (section_sizes (length ws) b) ws) = b"
    and "concat (chop (section_sizes (length ws) b) ws) = ws"
    and "map length (chop (section_sizes (length ws) b) ws) = section_sizes (length ws) b"
  using assms
  by (simp_all add: np_array_split_def length_chop concat_chop map_length_chop
      length_section_sizes sum_list_section_sizes)

lemma split_result:
  assumes "ws \<noteq> []" and "1 \<le> c" and "c < int (length ws) * 2 ^ 1075"
  defines "b \<equiv> nat \<lceil>real_of_int (int (length ws)) / real_of_int c\<rceil>"
  shows "0 < b" and "b \<le> length ws"
    and "split_clip_indices_into_batches ws c =
      (if length ws mod b = 0 then Inr (chop (replicate b (length ws div b)) ws)
       else Inl ValueError)"
proof -
  have n1: "1 \<le> int (length ws)" using assms(1) by (cases ws) simp_all
  note bb = batch_num_bounds [OF n1 assms(2)]
  show b0: "0 < b" using bb by (simp add: b_def)
  show "b \<le> length ws" using bb unfolding b_def by linarith
  have ib: "\<lceil>real (length ws) / real_of_int c\<rceil> = int b"
    using bb by (simp add: b_def)
  let ?g = "chop (section_sizes (length ws) b) ws"
  have g: "?g \<noteq> []" using array_split_even(2) [OF b0, of ws] b0 by auto
  have sp: "split_clip_indices_into_batches ws c = np_asarray ?g"
    using assms(2,3) array_split_even(1) [OF b0, of ws]
    by (simp add: split_clip_indices_into_batches_def Let_def ib)
  show "split_clip_indices_into_batches ws c =
      (if length ws mod b = 0 then Inr (chop (replicate b (length ws div b)) ws)
       else Inl ValueError)"
  proof (cases "length ws mod b = 0")
    case True
    have u: "section_sizes (length ws) b = replicate b (length ws div b)"
      by (rule section_sizes_uniform [OF b0 True])
    have "np_asarray ?g = Inr ?g"
      apply (subst np_asarray_iff [OF g])
      apply (subst (1 2) array_split_even(4) [OF b0])
      using b0 apply (simp add: u)
      done
    then show ?thesis using True by (simp add: sp u)
  next
    case False
    have "hd (section_sizes (length ws) b) \<noteq> length ws div b"
      using section_sizes_ragged(1) [OF b0 False] by simp
    with section_sizes_ragged(2) [OF b0 False]
    have "\<not> (\<forall>n \<in> set (section_sizes (length ws) b). n = hd (section_sizes (length ws) b))"
      by metis
    then have "np_asarray ?g = Inl ValueError"
      apply (subst np_asarray_iff [OF g])
      apply (subst (1 2) array_split_even(4) [OF b0])
      apply simp
      done
    then show ?thesis using False by (simp add: sp)
  qed
qed

lemma array_split_sizes:
  assumes "ws \<noteq> []" and "1 \<le> c"
  defines "b \<equiv> \<lceil>real_of_int (int (length ws)) / real_of_int c\<rceil>"
  shows "\<exists>groups. np_array_split ws b = Inr groups
    \<and> int (length groups) = b
    \<and> concat groups = ws
    \<and> sum_list (map length groups) = length ws
    \<and> sorted (rev (map length groups))
    \<and> (\<forall>g \<in> set groups. \<forall>h \<in> set groups. length g \<le> length h + 1)"
proof -
  have n1: "1 \<le> int (length ws)" using assms(1) by (cases ws) simp_all
  note bb = batch_num_bounds [OF n1 assms(2)]
  have b0: "0 < nat b" and ib: "b = int (nat b)" using bb by (simp_all add: b_def)
  let ?g = "chop (section_sizes (length ws) (nat b)) ws"
  have 1: "np_array_split ws b = Inr ?g"
    using array_split_even(1) [OF b0, of ws] ib by simp
  have ml: "map length ?g = section_sizes (length ws) (nat b)"
    by (rule array_split_even(4) [OF b0])
  have 5: "\<forall>g \<in> set ?g. \<forall>h \<in> set ?g. length g \<le> length h + 1"
  proof (intro ballI)
    fix g h assume "g \<in> set ?g" "h \<in> set ?g"
    then have "length g \<in> set (map length ?g)" "length h \<in> set (map length ?g)" by simp_all
    then have "length g \<in> {length ws div nat b, length ws div nat b + 1}"
      and "length h \<in> {length ws div nat b, length ws div nat b + 1}"
      unfolding ml using set_section_sizes [of "length ws" "nat b"] by blast+
    then show "length g \<le> length h + 1" by auto
  qed
  show ?thesis
    using 1 array_split_even(2,3) [OF b0, of ws] ib 5
    by (intro exI [of _ ?g]) (simp add: ml sum_list_section_sizes [OF b0] sorted_section_sizes)
qed


text \<open>
  Claim C8. For an empty sequence of windows the batch partitioner fails, whatever the
  batch capacity: zero windows make zero sections, which \<^verbatim>\<open>np.array_split\<close> rejects with
  ValueError (the spec's EmptyInputError); a batch capacity of 0 fails even earlier, in
  the division.
\<close>

theorem split_empty_fails:
  "split_clip_indices_into_batches ([] :: 'a list) c
     = Inl (if c = 0 then ZeroDivisionError else ValueError)"
  by (simp add: split_clip_indices_into_batches_def np_array_split_def)

lemma windows_25:
  "from_frames_to_clips (replicate 25 ()) 16 1 = Inr (map (\<lambda>i. [i..i + 15]) [0..9])"
  by code_simp

lemma windows_20:
  "from_frames_to_clips (replicate 20 ()) 16 1 = Inr (map (\<lambda>i. [i..i + 15]) [0..4])"
  by code_simp

text \<open>
  Claim C5, evaluated at 10 windows (a 25-frame video, clip length 16, frequency 1) and a
  batch capacity of 4. There are \<open>ceil(10/4) = 3\<close> sections and \<^verbatim>\<open>np.array_split\<close> cuts the
  windows into groups of sizes 4, 3, 3, as the claim says; but the partitioner then
  stacks the groups with \<^verbatim>\<open>np.asarray\<close>, which raises ValueError for groups of unequal
  size, so it returns no groups at all. (\<open>split_result\<close> above gives the general picture:
  for a batch size below \<open>n * 2 ^ 1075\<close> the partitioner returns exactly when the
  section count divides the window count \<open>n\<close>.)
\<close>

theorem split_ragged_raises:
  "from_frames_to_clips (replicate 25 ()) 16 1 = Inr (map (\<lambda>i. [i..i + 15]) [0..9])
   \<and> length (map (\<lambda>i. [i..i + 15]) [0..9]) = 10
   \<and> \<lceil>real_of_int 10 / real_of_int 4\<rceil> = 3
   \<and> np_array_split (map (\<lambda>i. [i..i + 15]) [0..9]) 3
       = Inr [map (\<lambda>i. [i..i + 15]) [0..3], map (\<lambda>i. [i..i + 15]) [4..6],
              map (\<lambda>i. [i..i + 15]) [7..9]]
   \<and> split_clip_indices_into_batches (map (\<lambda>i. [i..i + 15]) [0..9]) 4 = Inl ValueError"
proof (intro conjI)
  show "from_frames_to_clips (replicate 25 ()) 16 1 = Inr (map (\<lambda>i. [i..i + 15]) [0..9])"
    by (rule windows_25)
  show "length (map (\<lambda>i. [i..i + 15]) [0..9]) = 10" by simp
  show "\<lceil>real_of_int 10 / real_of_int 4\<rceil> = 3" by simp
  show "np_array_split (map (\<lambda>i. [i..i + 15]) [0..9]) 3
       = Inr [map (\<lambda>i. [i..i + 15]) [0..3], map (\<lambda>i. [i..i + 15]) [4..6],
              map (\<lambda>i. [i..i + 15]) [7..9]]"
    by code_simp
  show "split_clip_indices_into_batches (map (\<lambda>i. [i..i + 15]) [0..9]) 4 = Inl ValueError"
    by code_simp
qed

text \<open>
  Claim C2, evaluated at the 5 windows of a 20-frame video (clip length 16, frequency 1)
  and a batch capacity of 8. The partitioner returns the stacked array alone, here one
  batch holding the 5 windows; there is no count of valid elements beside it, and the
  unpacking \<^verbatim>\<open>frame_indices, k = ...\<close> at the call site fails with ValueError. With 16
  windows there are two batches, and the unpacking binds \<open>k\<close> to the second batch of
  windows, not to a count.
\<close>

theorem split_returns_no_valid_count:
  "from_frames_to_clips (replicate 20 ()) 16 1 = Inr (map (\<lambda>i. [i..i + 15]) [0..4])
   \<and> split_clip_indices_into_batches (map (\<lambda>i. [i..i + 15]) [0..4]) 8
       = Inr [map (\<lambda>i. [i..i + 15]) [0..4]]
   \<and> py_unpack2 [map (\<lambda>i. [i..i + 15]) [0..4]] = Inl ValueError
   \<and> split_clip_indices_into_batches (map (\<lambda>i. [i..i + 15]) [0..15]) 8
       = Inr [map (\<lambda>i. [i..i + 15]) [0..7], map (\<lambda>i. [i..i + 15]) [8..15]]
   \<and> py_unpack2 [map (\<lambda>i. [i..i + 15]) [0..7], map (\<lambda>i. [i..i + 15]) [8..15]]
       = Inr (map (\<lambda>i. [i..i + 15]) [0..7], map (\<lambda>i. [i..i + 15]) [8..15])"
proof (intro conjI)
  show "from_frames_to_clips (replicate 20 ()) 16 1 = Inr (map (\<lambda>i. [i..i + 15]) [0..4])"
    by (rule windows_20)
  show "split_clip_indices_into_batches (map (\<lambda>i. [i..i + 15]) [0..4]) 8
       = Inr [map (\<lambda>i. [i..i + 15]) [0..4]]"
    by code_simp
  show "py_unpack2 [map (\<lambda>i. [i..i + 15]) [0..4]] = Inl ValueError" by simp
  show "split_clip_indices_into_batches (map (\<lambda>i. [i..i + 15]) [0..15]) 8
       = Inr [map (\<lambda>i. [i..i + 15]) [0..7], map (\<lambda>i. [i..i + 15]) [8..15]]"
    by code_simp
  show "py_unpack2 [map (\<lambda>i. [i..i + 15]) [0..7], map (\<lambda>i. [i..i + 15]) [8..15]]
       = Inr (map (\<lambda>i. [i..i + 15]) [0..7], map (\<lambda>i. [i..i + 15]) [8..15])"
    by simp
qed

section \<open>Properties of the entry points\<close>

text \<open>
  Claim C3. Both entry points raise TypeError for every frame store (so also for those
  with more than \<open>clip_length\<close> frames), every clip length and batch size, and every
  extractor and loader, even ones that would raise another error themselves: the call of
  \<^verbatim>\<open>from_frames_to_clips\<close> with two arguments fails before anything else runs, so no
  feature is produced. The call of \<^verbatim>\<open>load_rgb_batch\<close> with four arguments raises
  TypeError as well, whatever the third argument is.
\<close>

theorem entry_points_raise_TypeError:
  "extract_i3d_features model_i loader rgb_files clip_length temp_path batch_size = Inl TypeError
   \<and> extract_c3d_features model_c loader rgb_files clip_length temp_path batch_size = Inl TypeError
   \<and> call_from_frames_to_clips [PStrs rgb_files, PInt clip_length] = Inl TypeError
   \<and> call_load_rgb_batch loader [PStr temp_path, PStrs rgb_files, idx, PDevice] = Inl TypeError"
  by (simp add: extract_i3d_features_def extract_c3d_features_def extract_features_def)

section \<open>Properties of the normalisation\<close>

lemma sum_list_squares_div:
  "sum_list (map (\<lambda>x. x\<^sup>2) (map (\<lambda>x. x / n) xs))
     = sum_list (map (\<lambda>x. x\<^sup>2) xs) / (n::real)\<^sup>2"
  by (induction xs) (simp_all add: power_divide add_divide_distrib)

lemma linalg_norm_scaled:
  assumes "linalg_norm xs \<noteq> 0"
  shows "linalg_norm (map (\<lambda>x. x / linalg_norm xs) xs) = 1"
proof -
  let ?s = "sum_list (map (\<lambda>x. x\<^sup>2) xs)"
  have s0: "0 \<le> ?s" by (rule sum_list_nonneg) auto
  have n2: "(linalg_norm xs)\<^sup>2 = ?s" using s0 by (simp add: linalg_norm_def)
  have "?s \<noteq> 0" using assms by (auto simp: linalg_norm_def)
  then show ?thesis
    unfolding linalg_norm_def [of "map _ xs"] sum_list_squares_div n2 by simp
qed

lemma normalize_c3d_whole_batch:
  assumes "linalg_norm (concat v) \<noteq> 0"
  shows "linalg_norm (concat (normalize_c3d v)) = 1"
  using linalg_norm_scaled [OF assms]
  by (simp add: normalize_c3d_def Let_def map_concat)

lemma sqrt_25: "sqrt 25 = 5"
  by (rule real_sqrt_unique) simp_all

lemma concat_replicate_single: "concat (replicate n [x]) = replicate n x"
  by (induction n) simp_all

lemma norm_3_4: "linalg_norm (concat [3 # replicate 4095 0, 4 # replicate 4095 0]) = 5"
  by (simp add: linalg_norm_def sqrt_25 sum_list_replicate)

lemma norm_3_4_i3d:
  "linalg_norm (concat (concat (concat (concat
     [[[[3]]] # replicate 1023 [[[0]]], [[[4]]] # replicate 1023 [[[0]]]])))) = 5"
  by (simp add: linalg_norm_def sqrt_25 sum_list_replicate concat_replicate_single)

text \<open>
  Claim C1, evaluated at a batch of two clips whose features are \<open>(3, 0, ..., 0)\<close> and
  \<open>(4, 0, ..., 0)\<close>. The norm taken in lines 47 and 103 is that of the whole batch, 5, so
  the rows written into the accumulator are \<open>(3/5, 0, ..., 0)\<close> and \<open>(4/5, 0, ..., 0)\<close>,
  of Euclidean norm 3/5 and 4/5, not 1, on the C3D path and on the I3D path alike. What
  has norm 1 is the batch as a whole (\<open>normalize_c3d_whole_batch\<close>).
\<close>

theorem normalize_divides_by_batch_norm:
  "normalize_c3d [3 # replicate 4095 0, 4 # replicate 4095 0]
     = [3 / 5 # replicate 4095 0, 4 / 5 # replicate 4095 0]
   \<and> linalg_norm (3 / 5 # replicate 4095 0) = 3 / 5
   \<and> linalg_norm (4 / 5 # replicate 4095 0) = 4 / 5
   \<and> normalize_i3d [[[[3]]] # replicate 1023 [[[0]]], [[[4]]] # replicate 1023 [[[0]]]]
     = [[[[3 / 5]]] # replicate 1023 [[[0]]], [[[4 / 5]]] # replicate 1023 [[[0]]]]
   \<and> linalg_norm (concat (concat (concat ([[[3 / 5]]] # replicate 1023 [[[0]]])))) = 3 / 5
   \<and> linalg_norm (concat (concat (concat ([[[4 / 5]]] # replicate 1023 [[[0]]])))) = 4 / 5"
proof (intro conjI)
  show "normalize_c3d [3 # replicate 4095 0, 4 # replicate 4095 0]
     = [3 / 5 # replicate 4095 0, 4 / 5 # replicate 4095 0]"
    unfolding normalize_c3d_def Let_def norm_3_4 by simp
  show "linalg_norm (3 / 5 # replicate 4095 0) = 3 / 5"
    unfolding linalg_norm_def
    by (rule real_sqrt_unique) (simp_all add: power2_eq_square sum_list_replicate)
  show "linalg_norm (4 / 5 # replicate 4095 0) = 4 / 5"
    unfolding linalg_norm_def
    by (rule real_sqrt_unique) (simp_all add: power2_eq_square sum_list_replicate)
  show "normalize_i3d [[[[3]]] # replicate 1023 [[[0]]], [[[4]]] # replicate 1023 [[[0]]]]
     = [[[[3 / 5]]] # replicate 1023 [[[0]]], [[[4 / 5]]] # replicate 1023 [[[0]]]]"
    unfolding normalize_i3d_def Let_def norm_3_4_i3d by simp
  show "linalg_norm (concat (concat (concat ([[[3 / 5]]] # replicate 1023 [[[0]]])))) = 3 / 5"
    unfolding linalg_norm_def
    by (rule real_sqrt_unique)
      (simp_all add: power2_eq_square sum_list_replicate concat_replicate_single)
  show "linalg_norm (concat (concat (concat ([[[4 / 5]]] # replicate 1023 [[[0]]])))) = 4 / 5"
    unfolding linalg_norm_def
    by (rule real_sqrt_unique)
      (simp_all add: power2_eq_square sum_list_replicate concat_replicate_single)
qed


section \<open>Properties of the reassembly\<close>

lemma has_shapeD:
  assumes "has_shape ff nb nc m" and "b < nb" and "i < nc"
  shows "length ff = nb" and "length (ff ! b) = nc" and "length (ff ! b ! i) = m"
  using assms by (auto simp: has_shape_def list_all_length)

lemma length_concat_uniform:
  "\<forall>xs \<in> set xss. length xs = m \<Longrightarrow> length (concat xss) = length xss * m"
  by (induction xss) simp_all

lemma nth_concat_uniform:
  assumes "\<forall>xs \<in> set xss. length xs = m" and "r < length xss * m"
  shows "concat xss ! r = xss ! (r div m) ! (r mod m)"
  using assms
proof (induction xss arbitrary: r)
  case Nil
  then show ?case by simp
next
  case (Cons xs xss)
  have m0: "0 < m" using Cons.prems(2) by (cases m) simp_all
  have lx: "length xs = m" using Cons.prems(1) by simp
  show ?case
  proof (cases "r < m")
    case True
    then show ?thesis by (simp add: nth_append lx)
  next
    case False
    then have rm: "m \<le> r" by simp
    have "r - m < length xss * m" using Cons.prems(2) rm by simp
    then have ih: "concat xss ! (r - m) = xss ! ((r - m) div m) ! ((r - m) mod m)"
      using Cons.IH Cons.prems(1) by simp
    have d: "r div m = Suc ((r - m) div m)"
      using rm m0 by (simp add: le_div_geq)
    have mo: "r mod m = (r - m) mod m"
      using rm by (simp add: le_mod_geq)
    show ?thesis using False by (simp add: nth_append lx ih d mo)
  qed
qed

lemma crop_rows_split:
  assumes "ff \<noteq> []"
  shows "crop_rows ff k i
    = concat (map (\<lambda>b. ff ! b ! i) [0..<length ff - 1]) @ py_take k (ff ! (length ff - 1) ! i)"
proof -
  have u: "[0..<length ff] = [0..<length ff - 1] @ [length ff - 1]"
    using assms by (cases ff rule: rev_cases) simp_all
  have m: "map (\<lambda>b. if b = length ff - 1 then py_take k (ff ! b ! i) else ff ! b ! i)
             [0..<length ff - 1]
           = map (\<lambda>b. ff ! b ! i) [0..<length ff - 1]"
    by (rule map_cong) simp_all
  show ?thesis
    unfolding crop_rows_def by (subst u) (simp only: map_append concat_append m, simp)
qed

lemma crop_rows_props:
  assumes sh: "has_shape ff nb nc m" and nb: "0 < nb" and i: "i < nc"
    and k: "0 \<le> k" "k \<le> int m"
  shows "length (crop_rows ff k i) = (nb - 1) * m + nat k"
    and "r < (nb - 1) * m + nat k \<Longrightarrow> crop_rows ff k i ! r = ff ! (r div m) ! i ! (r mod m)"
proof -
  have ne: "ff \<noteq> []" and l: "length ff = nb" using sh nb by (auto simp: has_shape_def)
  let ?xss = "map (\<lambda>b. ff ! b ! i) [0..<nb - 1]"
  have un: "\<forall>xs \<in> set ?xss. length xs = m"
    using has_shapeD(3) [OF sh _ i] by auto
  have lc: "length (concat ?xss) = (nb - 1) * m"
    using length_concat_uniform [OF un] by simp
  have lt: "length (py_take k (ff ! (nb - 1) ! i)) = nat k"
    using k has_shapeD(3) [OF sh _ i, of "nb - 1"] nb by (simp add: py_take_def)
  have cs: "crop_rows ff k i = concat ?xss @ py_take k (ff ! (nb - 1) ! i)"
    using crop_rows_split [OF ne, of k i] by (simp add: l)
  show "length (crop_rows ff k i) = (nb - 1) * m + nat k"
    unfolding cs using lc lt by simp
  show "crop_rows ff k i ! r = ff ! (r div m) ! i ! (r mod m)" if r: "r < (nb - 1) * m + nat k"
  proof (cases "r < (nb - 1) * m")
    case True
    then have "r div m < nb - 1"
      by (simp add: less_mult_imp_div_less)
    with True show ?thesis
      unfolding cs using nth_concat_uniform [OF un, of r] lc by (simp add: nth_append)
  next
    case False
    then have ge: "(nb - 1) * m \<le> r" by simp
    have m0: "0 < m" using r ge k by (cases m) auto
    have rk: "r - (nb - 1) * m < nat k" using r ge by simp
    have rm: "r - (nb - 1) * m < m" using rk k by simp
    have d: "r div m = nb - 1"
    proof (rule div_nat_eqI)
      show "m * (nb - 1) \<le> r" using ge by (simp add: mult.commute)
      show "r < m * Suc (nb - 1)" using rm ge by (simp add: mult.commute)
    qed
    have mo: "r mod m = r - (nb - 1) * m"
      by (simp add: modulo_nat_def d)
    show ?thesis
      unfolding cs using False k rk lc by (simp add: nth_append py_take_def d mo)
  qed
qed


lemma gather_shape:
  assumes sh: "has_shape ff nb nc m" and nb: "0 < nb" and nc: "0 < nc"
  shows "gather ff k nc = Inr (map (crop_rows ff k) [0..<nc])"
proof -
  have ne: "ff \<noteq> []" using sh nb by (auto simp: has_shape_def)
  have "length (hd ff) = nc"
    using has_shapeD(2) [OF sh nb nc] ne by (simp add: hd_conv_nth)
  then show ?thesis using ne nc by (simp add: gather_def)
qed

lemma transpose_rows:
  fixes f :: "'r \<Rightarrow> 's" and ff :: "'r list list list"
  assumes sh: "has_shape ff nb nc m" and nb: "0 < nb" and nc: "0 < nc"
    and k: "0 \<le> k" "k \<le> int m"
  defines "out \<equiv> transpose_102 (map (map f) (map (crop_rows ff k) [0..<nc]))"
  shows "length out = (nb - 1) * m + nat k"
    and "r < (nb - 1) * m + nat k \<Longrightarrow> length (out ! r) = nc"
    and "r < (nb - 1) * m + nat k \<Longrightarrow> i < nc
           \<Longrightarrow> out ! r ! i = f (ff ! (r div m) ! i ! (r mod m))"
proof -
  note cp = crop_rows_props [OF sh nb _ k]
  have hd0: "hd (map (map f) (map (crop_rows ff k) [0..<nc])) = map f (crop_rows ff k 0)"
    using nc by (simp add: hd_map upt_conv_Cons)
  show len: "length out = (nb - 1) * m + nat k"
    unfolding out_def transpose_102_def hd0 using cp(1) [OF nc] by simp
  show "length (out ! r) = nc" if "r < (nb - 1) * m + nat k"
    using that len unfolding out_def transpose_102_def hd0 by simp
  show "out ! r ! i = f (ff ! (r div m) ! i ! (r mod m))"
    if r: "r < (nb - 1) * m + nat k" and i: "i < nc"
  proof -
    have "out ! r ! i = map f (crop_rows ff k i) ! r"
      using r i len unfolding out_def transpose_102_def hd0 by simp
    also have "\<dots> = f (crop_rows ff k i ! r)"
      using r cp(1) [OF i] by simp
    also have "\<dots> = f (ff ! (r div m) ! i ! (r mod m))"
      using cp(2) [OF i r] by simp
    finally show ?thesis .
  qed
qed

lemma reassemble_c3d_rows:
  assumes "has_shape ffc nb nc m" and "0 < nb" and "0 < nc" and "0 \<le> k" and "k \<le> int m"
  shows "\<exists>out. reassemble_c3d ffc k nc = Inr out
            \<and> length out = (nb - 1) * m + nat k
            \<and> (\<forall>r<length out. length (out ! r) = nc
                  \<and> (\<forall>i<nc. out ! r ! i = ffc ! (r div m) ! i ! (r mod m)))"
proof -
  note tc = transpose_rows [OF assms, where f = "\<lambda>x. x"]
  have rc: "reassemble_c3d ffc k nc = Inr (transpose_102 (map (crop_rows ffc k) [0..<nc]))"
    by (simp add: reassemble_c3d_def gather_shape [OF assms(1-3)])
  show ?thesis
    using tc by (intro exI [of _ "transpose_102 (map (crop_rows ffc k) [0..<nc])"])
      (simp add: rc)
qed









text \<open>
  When a trailing axis of the I3D accumulator is empty, line 65 raises IndexError: the
  reassembly returns no array.
\<close>

lemma reassemble_i3d_empty_axis:
  "reassemble_i3d [replicate 10 [[[]]]] 1 10 = Inl IndexError"
  by code_simp

text \<open>
  The truncation cuts the final batch only. Were 10 clips laid out in three padded
  batches of 4 rows with 4, 3 and 3 valid rows, as an even split sizes them, the
  reassembly with \<open>k = 3\<close> would return 11 rows: the padded row of the middle batch stays.
\<close>

lemma reassembly_keeps_middle_padding:
  assumes "has_shape ffc 3 10 4"
  shows "\<exists>out. reassemble_c3d ffc 3 10 = Inr out \<and> length out = 11
    \<and> (\<forall>i<10. out ! 7 ! i = ffc ! 1 ! i ! 3)"
  using reassemble_c3d_rows [OF assms, of 3] by fastforce

lemma split_18:
  "split_clip_indices_into_batches (map (\<lambda>i. [i..i + 15]) [0..17]) 8
     = Inr [map (\<lambda>i. [i..i + 15]) [0..5], map (\<lambda>i. [i..i + 15]) [6..11],
            map (\<lambda>i. [i..i + 15]) [12..17]]"
  by code_simp

text \<open>
  Claim C6, evaluated at its own example of 18 windows (a 33-frame video, clip length
  16, frequency 1) and a batch size of 8. The partitioner returns three batches of 6
  windows and no valid count; the unpacking at the call site raises ValueError, and both
  entry points raise TypeError before any window is built. No reassembled output with
  18 rows, or any at all, is produced.
\<close>

theorem scenario_18_windows:
  "from_frames_to_clips (replicate 33 ''image.jpg'') 16 1
       = Inr (map (\<lambda>i. [i..i + 15]) [0..17])
   \<and> length (map (\<lambda>i. [i..i + 15]) [0..17]) = 18
   \<and> split_clip_indices_into_batches (map (\<lambda>i. [i..i + 15]) [0..17]) 8
       = Inr [map (\<lambda>i. [i..i + 15]) [0..5], map (\<lambda>i. [i..i + 15]) [6..11],
              map (\<lambda>i. [i..i + 15]) [12..17]]
   \<and> py_unpack2 [map (\<lambda>i. [i..i + 15]) [0..5], map (\<lambda>i. [i..i + 15]) [6..11],
              map (\<lambda>i. [i..i + 15]) [12..17]] = Inl ValueError
   \<and> extract_i3d_features model_i loader (replicate 33 ''image.jpg'') 16 temp_path 8
       = Inl TypeError
   \<and> extract_c3d_features model_c loader (replicate 33 ''image.jpg'') 16 temp_path 8
       = Inl TypeError"
proof (intro conjI)
  show "from_frames_to_clips (replicate 33 ''image.jpg'') 16 1
       = Inr (map (\<lambda>i. [i..i + 15]) [0..17])"
    by code_simp
  show "length (map (\<lambda>i. [i..i + 15]) [0..17]) = 18" by simp
  show "split_clip_indices_into_batches (map (\<lambda>i. [i..i + 15]) [0..17]) 8
       = Inr [map (\<lambda>i. [i..i + 15]) [0..5], map (\<lambda>i. [i..i + 15]) [6..11],
              map (\<lambda>i. [i..i + 15]) [12..17]]"
    by (rule split_18)
  show "py_unpack2 [map (\<lambda>i. [i..i + 15]) [0..5], map (\<lambda>i. [i..i + 15]) [6..11],
              map (\<lambda>i. [i..i + 15]) [12..17]] = Inl ValueError"
    by simp
  show "extract_i3d_features model_i loader (replicate 33 ''image.jpg'') 16 temp_path 8
       = Inl TypeError"
    by (simp add: extract_i3d_features_def extract_features_def)
  show "extract_c3d_features model_c loader (replicate 33 ''image.jpg'') 16 temp_path 8
       = Inl TypeError"
    by (simp add: extract_c3d_features_def extract_features_def)
qed




section \<open>The end-to-end scenario\<close>

text \<open>
  Claim C10, evaluated: a 20-frame video, clip length 16, frequency 1, batch size 8. The
  clip indexer yields the 5 windows that start at 0, 1, 2, 3, 4, and the partitioner
  yields one batch holding the 5 windows. But the partitioner returns no valid count
  (the unpacking at the call site raises ValueError), and both entry points raise
  TypeError instead of returning an array of shape (5, 10, embedding_dim).
\<close>

theorem scenario_20_frames:
  "from_frames_to_clips (replicate 20 ''image.jpg'') 16 1 = Inr (map (\<lambda>i. [i..i + 15]) [0..4])
   \<and> map hd (map (\<lambda>i. [i..i + 15]) [0..4]) = [0, 1, 2, 3, 4]
   \<and> split_clip_indices_into_batches (map (\<lambda>i. [i..i + 15]) [0..4]) 8
       = Inr [map (\<lambda>i. [i..i + 15]) [0..4]]
   \<and> py_unpack2 [map (\<lambda>i. [i..i + 15]) [0..4]] = Inl ValueError
   \<and> extract_i3d_features model_i loader (replicate 20 ''image.jpg'') 16 temp_path 8
       = Inl TypeError
   \<and> extract_c3d_features model_c loader (replicate 20 ''image.jpg'') 16 temp_path 8
       = Inl TypeError"
proof (intro conjI)
  show "from_frames_to_clips (replicate 20 ''image.jpg'') 16 1
      = Inr (map (\<lambda>i. [i..i + 15]) [0..4])"
    by code_simp
  show "map hd (map (\<lambda>i. [i..i + 15]) [0..4]) = [0, 1, 2, 3, 4]"
    by code_simp
  show "split_clip_indices_into_batches (map (\<lambda>i. [i..i + 15]) [0..4]) 8
       = Inr [map (\<lambda>i. [i..i + 15]) [0..4]]"
    by code_simp
  show "py_unpack2 [map (\<lambda>i. [i..i + 15]) [0..4]] = Inl ValueError"
    by simp
  show "extract_i3d_features model_i loader (replicate 20 ''image.jpg'') 16 temp_path 8
       = Inl TypeError"
    by (simp add: extract_i3d_features_def extract_features_def)
  show "extract_c3d_features model_c loader (replicate 20 ''image.jpg'') 16 temp_path 8
       = Inl TypeError"
    by (simp add: extract_c3d_features_def extract_features_def)
qed

end
